theory Spec2Isabelle
  imports Main
begin

section \<open>Python values\<close>

text \<open>
  The values that travel through \<^verbatim>\<open>OpenLibraryAPI\<close>: what \<^verbatim>\<open>response.json()\<close> can
  return (null, booleans, integers, strings, arrays, objects) and what the request
  parameters hold. A \<^verbatim>\<open>dict\<close> is an association list in insertion order, looked up
  with \<open>map_of\<close>; a well-formed dict has distinct keys. A \<open>char\<close> stands for one code
  point below 256. JSON numbers with a fraction are not modelled.
\<close>

datatype pyval =
    PNone
  | PBool bool
  | PInt int
  | PStr string
  | PList "pyval list"
  | PDict "(string \<times> pyval) list"

type_synonym pydict = "(string \<times> pyval) list"

text \<open>The exceptions the two methods can raise.\<close>

datatype error = ValueError | TypeError | RequestException

subsection \<open>\<^verbatim>\<open>str.join\<close>, \<^verbatim>\<open>str.replace\<close>, \<^verbatim>\<open>dict.get\<close>, truthiness\<close>

fun join :: "string \<Rightarrow> string list \<Rightarrow> string" where
  "join sep [] = []"
| "join sep [x] = x"
| "join sep (x # y # ys) = x @ sep @ join sep (y # ys)"

text \<open>\<^verbatim>\<open>s.replace(old, new)\<close> for one-character \<^verbatim>\<open>old\<close> and \<^verbatim>\<open>new\<close>.\<close>

definition str_replace :: "char \<Rightarrow> char \<Rightarrow> string \<Rightarrow> string" where
  "str_replace old new s = map (\<lambda>c. if c = old then new else c) s"

text \<open>\<^verbatim>\<open>d.get(k, default)\<close>: the default is used only when the key is not in the dict.\<close>

definition dict_get :: "pydict \<Rightarrow> string \<Rightarrow> pyval \<Rightarrow> pyval" where
  "dict_get d k dflt = (case map_of d k of None \<Rightarrow> dflt | Some v \<Rightarrow> v)"

fun truthy :: "pyval \<Rightarrow> bool" where
  "truthy PNone = False"
| "truthy (PBool b) = b"
| "truthy (PInt i) = (i \<noteq> 0)"
| "truthy (PStr s) = (s \<noteq> [])"
| "truthy (PList xs) = (xs \<noteq> [])"
| "truthy (PDict d) = (d \<noteq> [])"

subsection \<open>\<^verbatim>\<open>str()\<close> and \<^verbatim>\<open>repr()\<close>\<close>

fun str_of_nat :: "nat \<Rightarrow> string" where
  "str_of_nat n =
     (if n < 10 then [''0123456789'' ! n]
      else str_of_nat (n div 10) @ [''0123456789'' ! (n mod 10)])"

definition str_of_int :: "int \<Rightarrow> string" where
  "str_of_int i = (if i < 0 then CHR ''-'' # str_of_nat (nat (- i)) else str_of_nat (nat i))"

definition hex2 :: "nat \<Rightarrow> string" where
  "hex2 n = [''0123456789abcdef'' ! (n div 16 mod 16), ''0123456789abcdef'' ! (n mod 16)]"

text \<open>
  \<^verbatim>\<open>repr\<close> of a string: double quotes only when the text has a single quote and no
  double quote; backslash, the chosen quote, newline, carriage return and tab are escaped
  with a backslash, every other non-printable code point as \<^verbatim>\<open>\xNN\<close>.
\<close>

definition printable :: "char \<Rightarrow> bool" where
  "printable c =
     (let n = (of_char c :: nat) in \<not> (n < 32 \<or> (127 \<le> n \<and> n \<le> 160) \<or> n = 173))"

definition repr_char :: "char \<Rightarrow> char \<Rightarrow> string" where
  "repr_char q c =
     (if c = CHR 0x5C then [CHR 0x5C, CHR 0x5C]
      else if c = q then [CHR 0x5C, q]
      else if c = CHR 0x0A then [CHR 0x5C, CHR ''n'']
      else if c = CHR 0x0D then [CHR 0x5C, CHR ''r'']
      else if c = CHR 0x09 then [CHR 0x5C, CHR ''t'']
      else if printable c then [c]
      else CHR 0x5C # CHR ''x'' # hex2 (of_char c))"

definition repr_str :: "string \<Rightarrow> string" where
  "repr_str s =
     (let q = (if CHR 0x27 \<in> set s \<and> CHR 0x22 \<notin> set s then CHR 0x22 else CHR 0x27)
      in q # concat (map (repr_char q) s) @ [q])"

primrec repr :: "pyval \<Rightarrow> string" where
  "repr PNone = ''None''"
| "repr (PBool b) = (if b then ''True'' else ''False'')"
| "repr (PInt i) = str_of_int i"
| "repr (PStr s) = repr_str s"
| "repr (PList xs) = ''['' @ join '', '' (map repr xs) @ '']''"
| "repr (PDict d) =
     ''{'' @ join '', '' (map (\<lambda>kv. repr_str (fst kv) @ '': '' @ snd kv) (map (map_prod id repr) d))
       @ ''}''"

text \<open>What an f-string field \<^verbatim>\<open>{x}\<close> and \<^verbatim>\<open>"{}".format(x)\<close> insert.\<close>

definition str :: "pyval \<Rightarrow> string" where
  "str v = (case v of PStr s \<Rightarrow> s | _ \<Rightarrow> repr v)"

text \<open>
  \<^verbatim>\<open>", ".join(x)\<close>: a list or tuple must hold strings only; a string is iterated
  character by character, a dict by its keys; anything else is not iterable.
\<close>

fun the_strs :: "pyval list \<Rightarrow> string list option" where
  "the_strs [] = Some []"
| "the_strs (PStr s # vs) = (case the_strs vs of None \<Rightarrow> None | Some ss \<Rightarrow> Some (s # ss))"
| "the_strs (_ # vs) = None"

definition py_join :: "string \<Rightarrow> pyval \<Rightarrow> error + string" where
  "py_join sep v =
     (case v of
        PList xs \<Rightarrow> (case the_strs xs of None \<Rightarrow> Inl TypeError | Some ss \<Rightarrow> Inr (join sep ss))
      | PStr s \<Rightarrow> Inr (join sep (map (\<lambda>c. [c]) s))
      | PDict d \<Rightarrow> Inr (join sep (map fst d))
      | _ \<Rightarrow> Inl TypeError)"

text \<open>
  \<^verbatim>\<open>x[:200]\<close>: the first 200 items of a string or a list. None, booleans and integers
  are not subscriptable, and a dict takes no slice (TypeError; KeyError from Python 3.12
  on): both are the failure \<open>TypeError\<close> here.
\<close>

definition slice200 :: "pyval \<Rightarrow> error + pyval" where
  "slice200 v =
     (case v of
        PStr s \<Rightarrow> Inr (PStr (take 200 s))
      | PList xs \<Rightarrow> Inr (PList (take 200 xs))
      | _ \<Rightarrow> Inl TypeError)"

section \<open>\<^verbatim>\<open>OpenLibraryAPI.format_search_result\<close>\<close>

definition COVER_URL :: "pyval \<Rightarrow> string" where
  "COVER_URL v = ''https://covers.openlibrary.org/b/id/'' @ str v @ ''-L.jpg''"

text \<open>Lines 100 to 103: the description, taken out of its object when it is one.\<close>

definition description_of :: "pydict \<Rightarrow> pyval" where
  "description_of result =
     (let description = dict_get result ''description'' (PStr ''No description available'')
      in case description of
           PDict d \<Rightarrow> dict_get d ''value'' (PStr ''No description available'')
         | _ \<Rightarrow> description)"

text \<open>Lines 114 to 115: the cover line, added when \<^verbatim>\<open>cover_id\<close> is truthy.\<close>

definition cover_line :: "pydict \<Rightarrow> string" where
  "cover_line result =
     (let cover_id = dict_get result ''cover_i'' PNone
      in if truthy cover_id then ''Cover: '' @ COVER_URL cover_id @ ''\<newline>'' else [])"

definition format_search_result :: "pydict \<Rightarrow> error + string" where
  "format_search_result result =
     (let title = dict_get result ''title'' (PStr ''Unknown Title'') in
      case py_join '', '' (dict_get result ''author_name'' (PList [PStr ''Unknown Author''])) of
        Inl e \<Rightarrow> Inl e
      | Inr authors \<Rightarrow>
     (let year = dict_get result ''first_publish_year'' (PStr ''Unknown Year'') in
      case py_join '', '' (dict_get result ''publisher'' (PList [PStr ''Unknown Publisher''])) of
        Inl e \<Rightarrow> Inl e
      | Inr publisher \<Rightarrow>
     (case py_join '', '' (dict_get result ''isbn'' (PList [PStr ''Unknown ISBN''])) of
        Inl e \<Rightarrow> Inl e
      | Inr isbns \<Rightarrow>
     (case slice200 (description_of result) of
        Inl e \<Rightarrow> Inl e
      | Inr description \<Rightarrow>
          Inr (''Title: '' @ str title @ ''\<newline>''
             @ ''Author(s): '' @ authors @ ''\<newline>''
             @ ''First Published: '' @ str year @ ''\<newline>''
             @ ''Publisher(s): '' @ publisher @ ''\<newline>''
             @ ''ISBN(s): '' @ isbns @ ''\<newline>''
             @ ''Description: '' @ str description @ ''...'' @ ''\<newline>''
             @ cover_line result)))))"

section \<open>\<^verbatim>\<open>OpenLibraryAPI.search_books\<close>\<close>

subsection \<open>Calls\<close>

text \<open>
  A call names the parameters it supplies; the others take their defaults. The memo
  of \<^verbatim>\<open>lru_cache\<close> is keyed by the arguments as they are passed, before the defaults
  are filled in, so a call that omits \<^verbatim>\<open>limit\<close> and one that passes \<^verbatim>\<open>limit=5\<close> are
  different keys. Calls are keyword calls that list their arguments in the order of the
  signature, on one \<^verbatim>\<open>OpenLibraryAPI\<close> object. The argument values have the annotated
  types; \<^verbatim>\<open>fields\<close> is a list, as annotated, or a tuple.
\<close>

datatype 'a supplied = Omitted | Given 'a

datatype fields_value = FieldsList "string list" | FieldsTuple "string list"

record call_args =
  title :: "string option supplied"
  author :: "string option supplied"
  isbn :: "string option supplied"
  fields_arg :: "fields_value supplied"
  limit :: "int supplied"
  page :: "int supplied"
  sort_arg :: "string option supplied"

definition arg_or :: "'a supplied \<Rightarrow> 'a \<Rightarrow> 'a" where
  "arg_or a dflt = (case a of Omitted \<Rightarrow> dflt | Given v \<Rightarrow> v)"

definition DEFAULT_FIELDS :: "string list" where
  "DEFAULT_FIELDS =
     [''title'', ''author_name'', ''first_publish_year'', ''publisher'', ''isbn'', ''cover_i'',
      ''description'']"

definition fields_items :: "fields_value supplied \<Rightarrow> string list" where
  "fields_items a =
     (case a of Omitted \<Rightarrow> DEFAULT_FIELDS | Given (FieldsList fs) \<Rightarrow> fs | Given (FieldsTuple fs) \<Rightarrow> fs)"

text \<open>Truthiness of an \<^verbatim>\<open>Optional[str]\<close>: None and the empty string are false.\<close>

definition nonempty :: "string option supplied \<Rightarrow> bool" where
  "nonempty a = (case arg_or a None of None \<Rightarrow> False | Some s \<Rightarrow> s \<noteq> [])"

text \<open>Line 53: \<^verbatim>\<open>any([title, author, isbn])\<close>.\<close>

definition any_criteria :: "call_args \<Rightarrow> bool" where
  "any_criteria c = (nonempty (title c) \<or> nonempty (author c) \<or> nonempty (isbn c))"

subsection \<open>The request parameters\<close>

text \<open>Lines 57 to 62: a text parameter is set when it is truthy, each space replaced by a plus.\<close>

definition text_param :: "string \<Rightarrow> string option supplied \<Rightarrow> pydict" where
  "text_param name a =
     (case arg_or a None of
        None \<Rightarrow> []
      | Some s \<Rightarrow> if s \<noteq> [] then [(name, PStr (str_replace (CHR '' '') (CHR ''+'') s))] else [])"

text \<open>Lines 69 to 74.\<close>

definition sort_param :: "string option supplied \<Rightarrow> pydict" where
  "sort_param a =
     (let sort = arg_or a None
      in if sort = Some ''new'' then [(''sort'', PStr ''new'')]
         else if sort = Some ''old'' then [(''sort'', PStr ''old'')]
         else if sort = Some ''title'' then [(''sort'', PStr ''title'')]
         else [])"

text \<open>Lines 56 to 74: the dict \<^verbatim>\<open>params\<close>, in the order its keys are set.\<close>

definition build_params :: "call_args \<Rightarrow> pydict" where
  "build_params c =
     text_param ''title'' (title c) @ text_param ''author'' (author c) @ text_param ''isbn'' (isbn c)
     @ [(''fields'', PStr (join '','' (fields_items (fields_arg c)))),
        (''limit'', PInt (min (arg_or (limit c) 5) 100)),
        (''page'', PInt (arg_or (page c) 1))]
     @ sort_param (sort_arg c)"

subsection \<open>The method body\<close>

text \<open>
  The remote catalogue is a function from the request parameters to the outcome of lines
  77 to 79 (\<^verbatim>\<open>session.get\<close>, \<^verbatim>\<open>raise_for_status\<close>, \<^verbatim>\<open>response.json\<close>): the decoded body, or
  the exception, which line 82 raises again after printing it. The body returns its
  result together with the requests it has sent.
\<close>

type_synonym remote = "pydict \<Rightarrow> error + pyval"

definition search_books_wrapped :: "remote \<Rightarrow> call_args \<Rightarrow> (error + pyval) \<times> pydict list" where
  "search_books_wrapped remote c =
     (if \<not> any_criteria c then (Inl ValueError, [])
      else let params = build_params c in (remote params, [params]))"

subsection \<open>\<^verbatim>\<open>@lru_cache(maxsize=100)\<close>\<close>

text \<open>
  The state: the memo of the decorator, most recently used entry first, and the
  requests sent to the remote catalogue so far.
\<close>

record api_state =
  memo :: "(call_args \<times> pyval) list"
  remote_calls :: "pydict list"

definition init_state :: api_state where
  "init_state = \<lparr>memo = [], remote_calls = []\<rparr>"

definition maxsize :: nat where
  "maxsize = 100"

text \<open>The key is hashed before anything else; a list is not hashable.\<close>

definition hashable :: "call_args \<Rightarrow> bool" where
  "hashable c = (case fields_arg c of Given (FieldsList fs) \<Rightarrow> False | _ \<Rightarrow> True)"

text \<open>A hit moves the entry to the front.\<close>

definition touch :: "'k \<Rightarrow> 'v \<Rightarrow> ('k \<times> 'v) list \<Rightarrow> ('k \<times> 'v) list" where
  "touch k v m = (k, v) # filter (\<lambda>kv. fst kv \<noteq> k) m"

text \<open>A new entry goes to the front; a full memo drops its oldest entry, the last one.\<close>

definition store :: "'k \<Rightarrow> 'v \<Rightarrow> ('k \<times> 'v) list \<Rightarrow> ('k \<times> 'v) list" where
  "store k v m = (k, v) # (if maxsize \<le> length m then butlast m else m)"

text \<open>
  The decorated method: an unhashable key raises TypeError; a hit returns the stored
  result without running the body; a miss runs the body, and stores its result only
  when it returns one (an exception leaves the memo as it was).
\<close>

definition search_books :: "remote \<Rightarrow> api_state \<Rightarrow> call_args \<Rightarrow> (error + pyval) \<times> api_state" where
  "search_books remote st c =
     (if \<not> hashable c then (Inl TypeError, st)
      else case map_of (memo st) c of
        Some v \<Rightarrow> (Inr v, st\<lparr>memo := touch c v (memo st)\<rparr>)
      | None \<Rightarrow>
          (case search_books_wrapped remote c of
             (Inl e, sent) \<Rightarrow> (Inl e, st\<lparr>remote_calls := remote_calls st @ sent\<rparr>)
           | (Inr v, sent) \<Rightarrow>
               (Inr v, \<lparr>memo = store c v (memo st), remote_calls = remote_calls st @ sent\<rparr>)))"

text \<open>A sequence of calls, one after the other, against the same remote catalogue.\<close>

fun run :: "remote \<Rightarrow> api_state \<Rightarrow> call_args list \<Rightarrow> api_state" where
  "run remote st [] = st"
| "run remote st (c # cs) = run remote (snd (search_books remote st c)) cs"

text \<open>A call that supplies nothing, to be updated field by field.\<close>

definition no_args :: call_args where
  "no_args =
     \<lparr>title = Omitted, author = Omitted, isbn = Omitted, fields_arg = Omitted, limit = Omitted,
      page = Omitted, sort_arg = Omitted\<rparr>"

section \<open>Inputs for the properties\<close>

text \<open>A remote catalogue that answers every request with an empty result set.\<close>

definition empty_catalogue :: remote where
  "empty_catalogue params = Inr (PDict [(''docs'', PList [])])"

text \<open>A remote catalogue that is down.\<close>

definition failing_catalogue :: remote where
  "failing_catalogue params = Inl RequestException"

text \<open>The search by title of menu choice 1, and the same search for a given page.\<close>

definition by_title :: "string \<Rightarrow> call_args" where
  "by_title s = no_args\<lparr>title := Given (Some s)\<rparr>"


text \<open>
  A record as the catalogue documents it: \<^verbatim>\<open>author_name\<close>, \<^verbatim>\<open>publisher\<close> and \<^verbatim>\<open>isbn\<close>,
  when present, are lists of strings; \<^verbatim>\<open>description\<close>, when present, is a string or an
  object whose \<^verbatim>\<open>value\<close> is absent or a string.
\<close>

fun is_str :: "pyval \<Rightarrow> bool" where
  "is_str (PStr s) = True"
| "is_str _ = False"

fun is_str_list :: "pyval \<Rightarrow> bool" where
  "is_str_list (PList xs) = list_all is_str xs"
| "is_str_list _ = False"

definition absent_or :: "(pyval \<Rightarrow> bool) \<Rightarrow> pydict \<Rightarrow> string \<Rightarrow> bool" where
  "absent_or P d k = (case map_of d k of None \<Rightarrow> True | Some v \<Rightarrow> P v)"

fun is_description :: "pyval \<Rightarrow> bool" where
  "is_description (PStr s) = True"
| "is_description (PDict d) = absent_or is_str d ''value''"
| "is_description _ = False"

definition documented_record :: "pydict \<Rightarrow> bool" where
  "documented_record result =
     (absent_or is_str_list result ''author_name'' \<and> absent_or is_str_list result ''publisher''
      \<and> absent_or is_str_list result ''isbn'' \<and> absent_or is_description result ''description'')"

section \<open>Properties of \<^verbatim>\<open>format_search_result\<close>\<close>

subsection \<open>Lookups\<close>

lemma str_PStr: "str (PStr s) = s"
  by (simp add: str_def)

lemma dict_get_absent: "map_of d k = None \<Longrightarrow> dict_get d k dflt = dflt"
  by (simp add: dict_get_def)

lemma dict_get_Cons:
  "dict_get ((k, v) # d) k' dflt = (if k' = k then v else dict_get d k' dflt)"
  by (simp add: dict_get_def)

lemma the_strs_all_str: "list_all is_str xs \<Longrightarrow> \<exists>ss. the_strs xs = Some ss"
proof (induction xs)
  case Nil
  show ?case by simp
next
  case (Cons x xs)
  then obtain ss where "the_strs xs = Some ss" by auto
  moreover from Cons.prems obtain s where "x = PStr s" by (cases x) auto
  ultimately show ?case by simp
qed

lemma py_join_str_list: "is_str_list v \<Longrightarrow> \<exists>s. py_join sep v = Inr s"
proof (cases v)
  case (PList xs)
  assume "is_str_list v"
  with PList obtain ss where "the_strs xs = Some ss"
    using the_strs_all_str by auto
  with PList show ?thesis by (simp add: py_join_def)
qed auto

lemma py_join_field:
  assumes "absent_or is_str_list result k"
  shows "\<exists>s. py_join sep (dict_get result k (PList [PStr d])) = Inr s"
proof (cases "map_of result k")
  case None
  then show ?thesis by (simp add: dict_get_def py_join_def)
next
  case (Some v)
  with assms have "is_str_list v" by (simp add: absent_or_def)
  with Some show ?thesis by (simp add: dict_get_def py_join_str_list)
qed

lemma description_documented:
  assumes "absent_or is_description result ''description''"
  shows "\<exists>s. description_of result = PStr s"
proof (cases "map_of result ''description''")
  case None
  then show ?thesis by (simp add: description_of_def dict_get_def)
next
  case (Some v)
  with assms have v: "is_description v" by (simp add: absent_or_def)
  show ?thesis
  proof (cases v)
    case (PStr s)
    with Some show ?thesis by (simp add: description_of_def dict_get_def)
  next
    case (PDict d)
    with v have "absent_or is_str d ''value''" by simp
    then have "\<exists>s. dict_get d ''value'' (PStr ''No description available'') = PStr s"
      by (cases "map_of d ''value''"; simp add: absent_or_def dict_get_def)
         (metis is_str.elims(2))
    with Some PDict show ?thesis by (simp add: description_of_def dict_get_def)
  qed (use v in auto)
qed

lemma format_documented:
  assumes "documented_record result"
  shows "\<exists>out. format_search_result result = Inr out"
proof -
  from assms obtain a p i s where
    "py_join '', '' (dict_get result ''author_name'' (PList [PStr ''Unknown Author''])) = Inr a"
    "py_join '', '' (dict_get result ''publisher'' (PList [PStr ''Unknown Publisher''])) = Inr p"
    "py_join '', '' (dict_get result ''isbn'' (PList [PStr ''Unknown ISBN''])) = Inr i"
    "description_of result = PStr s"
    unfolding documented_record_def
    using py_join_field description_documented by meson
  then show ?thesis
    by (simp add: format_search_result_def slice200_def)
qed



lemma the_strs_map_PStr: "the_strs (map PStr ss) = Some ss"
  by (induction ss) auto

lemma py_join_strs: "py_join sep (PList (map PStr ss)) = Inr (join sep ss)"
  by (simp add: py_join_def the_strs_map_PStr)

lemma dict_get_present: "map_of d k = Some v \<Longrightarrow> dict_get d k dflt = v"
  by (simp add: dict_get_def)

lemma format_present_fields:
  assumes "map_of result ''title'' = Some t"
    and "map_of result ''author_name'' = Some (PList (map PStr authors))"
    and "map_of result ''first_publish_year'' = Some y"
    and "map_of result ''publisher'' = Some (PList (map PStr publishers))"
    and "map_of result ''isbn'' = Some (PList (map PStr isbns))"
    and "description_of result = PStr d"
  shows "format_search_result result =
     Inr (''Title: '' @ str t @ ''\<newline>''
        @ ''Author(s): '' @ join '', '' authors @ ''\<newline>''
        @ ''First Published: '' @ str y @ ''\<newline>''
        @ ''Publisher(s): '' @ join '', '' publishers @ ''\<newline>''
        @ ''ISBN(s): '' @ join '', '' isbns @ ''\<newline>''
        @ ''Description: '' @ take 200 d @ ''...'' @ ''\<newline>''
        @ cover_line result)"
  using assms
  by (simp add: format_search_result_def dict_get_present py_join_strs slice200_def str_PStr Let_def)


lemmas absent_simps = format_search_result_def description_of_def cover_line_def dict_get_Cons
  dict_get_absent Let_def

subsection \<open>Defaults\<close>

text \<open>
  C3, as the code has it. The empty record is formatted to the text made of the six
  defaults, with no cover line. A field whose key is absent is formatted exactly as if it
  were present with its default (title \<^verbatim>\<open>Unknown Title\<close>, authors \<^verbatim>\<open>Unknown Author\<close>, year
  \<^verbatim>\<open>Unknown Year\<close>, publishers \<^verbatim>\<open>Unknown Publisher\<close>, ISBNs \<^verbatim>\<open>Unknown ISBN\<close>, description
  \<^verbatim>\<open>No description available\<close>), and an absent cover identifier gives no cover line. A
  field whose key is present is printed as it is, also when it is empty: when the title
  and the year are present, the author, publisher and ISBN fields are lists of strings
  and the description is a string, the output is the six lines made of exactly these
  values, so an empty title, an empty list and an empty description print as nothing.
  The one default that a present field gets is that of a description object without a
  \<^verbatim>\<open>value\<close> key, which is printed as \<^verbatim>\<open>No description available\<close>. Formatting returns a
  text for every record whose author, publisher and ISBN fields, when present, are lists
  of strings and whose description, when present, is a string or an object with a string
  (or nothing) under \<^verbatim>\<open>value\<close>.
\<close>

theorem absent_fields_get_defaults:
  "format_search_result [] = Inr ''Title: Unknown Title\<newline>Author(s): Unknown Author\<newline>First Published: Unknown Year\<newline>Publisher(s): Unknown Publisher\<newline>ISBN(s): Unknown ISBN\<newline>Description: No description available...\<newline>''
   \<and> (map_of result ''title'' = None \<longrightarrow>
        format_search_result result
          = format_search_result ((''title'', PStr ''Unknown Title'') # result))
   \<and> (map_of result ''author_name'' = None \<longrightarrow>
        format_search_result result
          = format_search_result ((''author_name'', PList [PStr ''Unknown Author'']) # result))
   \<and> (map_of result ''first_publish_year'' = None \<longrightarrow>
        format_search_result result
          = format_search_result ((''first_publish_year'', PStr ''Unknown Year'') # result))
   \<and> (map_of result ''publisher'' = None \<longrightarrow>
        format_search_result result
          = format_search_result ((''publisher'', PList [PStr ''Unknown Publisher'']) # result))
   \<and> (map_of result ''isbn'' = None \<longrightarrow>
        format_search_result result
          = format_search_result ((''isbn'', PList [PStr ''Unknown ISBN'']) # result))
   \<and> (map_of result ''description'' = None \<longrightarrow>
        format_search_result result
          = format_search_result ((''description'', PStr ''No description available'') # result))
   \<and> (map_of result ''cover_i'' = None \<longrightarrow> cover_line result = [])
   \<and> (map_of result ''title'' = Some t
        \<and> map_of result ''author_name'' = Some (PList (map PStr authors))
        \<and> map_of result ''first_publish_year'' = Some y
        \<and> map_of result ''publisher'' = Some (PList (map PStr publishers))
        \<and> map_of result ''isbn'' = Some (PList (map PStr isbns))
        \<and> (map_of result ''description'' = Some (PStr d)
             \<or> (\<exists>obj. map_of result ''description'' = Some (PDict obj)
                   \<and> dict_get obj ''value'' (PStr ''No description available'') = PStr d))
      \<longrightarrow> format_search_result result =
            Inr (''Title: '' @ str t @ ''\<newline>''
               @ ''Author(s): '' @ join '', '' authors @ ''\<newline>''
               @ ''First Published: '' @ str y @ ''\<newline>''
               @ ''Publisher(s): '' @ join '', '' publishers @ ''\<newline>''
               @ ''ISBN(s): '' @ join '', '' isbns @ ''\<newline>''
               @ ''Description: '' @ take 200 d @ ''...'' @ ''\<newline>''
               @ cover_line result))
   \<and> (documented_record result \<longrightarrow> (\<exists>out. format_search_result result = Inr out))"
proof (intro conjI impI)
  show "format_search_result [] = Inr ''Title: Unknown Title\<newline>Author(s): Unknown Author\<newline>First Published: Unknown Year\<newline>Publisher(s): Unknown Publisher\<newline>ISBN(s): Unknown ISBN\<newline>Description: No description available...\<newline>''"
    by (simp add: format_search_result_def dict_get_def py_join_def slice200_def
        description_of_def cover_line_def str_def)
next
  assume "map_of result ''title'' = None"
  then show "format_search_result result
      = format_search_result ((''title'', PStr ''Unknown Title'') # result)"
    by (simp add: absent_simps cong: sum.case_cong)
next
  assume "map_of result ''author_name'' = None"
  then show "format_search_result result
      = format_search_result ((''author_name'', PList [PStr ''Unknown Author'']) # result)"
    by (simp add: absent_simps cong: sum.case_cong)
next
  assume "map_of result ''first_publish_year'' = None"
  then show "format_search_result result
      = format_search_result ((''first_publish_year'', PStr ''Unknown Year'') # result)"
    by (simp add: absent_simps cong: sum.case_cong)
next
  assume "map_of result ''publisher'' = None"
  then show "format_search_result result
      = format_search_result ((''publisher'', PList [PStr ''Unknown Publisher'']) # result)"
    by (simp add: absent_simps cong: sum.case_cong)
next
  assume "map_of result ''isbn'' = None"
  then show "format_search_result result
      = format_search_result ((''isbn'', PList [PStr ''Unknown ISBN'']) # result)"
    by (simp add: absent_simps cong: sum.case_cong)
next
  assume "map_of result ''description'' = None"
  then show "format_search_result result
      = format_search_result ((''description'', PStr ''No description available'') # result)"
    by (simp add: absent_simps cong: sum.case_cong)
next
  assume "map_of result ''cover_i'' = None"
  then show "cover_line result = []"
    by (simp add: cover_line_def dict_get_absent)
next
  assume a: "map_of result ''title'' = Some t
        \<and> map_of result ''author_name'' = Some (PList (map PStr authors))
        \<and> map_of result ''first_publish_year'' = Some y
        \<and> map_of result ''publisher'' = Some (PList (map PStr publishers))
        \<and> map_of result ''isbn'' = Some (PList (map PStr isbns))
        \<and> (map_of result ''description'' = Some (PStr d)
             \<or> (\<exists>obj. map_of result ''description'' = Some (PDict obj)
                   \<and> dict_get obj ''value'' (PStr ''No description available'') = PStr d))"
  then have "description_of result = PStr d"
    by (auto simp: description_of_def dict_get_present)
  with a show "format_search_result result =
            Inr (''Title: '' @ str t @ ''\<newline>''
               @ ''Author(s): '' @ join '', '' authors @ ''\<newline>''
               @ ''First Published: '' @ str y @ ''\<newline>''
               @ ''Publisher(s): '' @ join '', '' publishers @ ''\<newline>''
               @ ''ISBN(s): '' @ join '', '' isbns @ ''\<newline>''
               @ ''Description: '' @ take 200 d @ ''...'' @ ''\<newline>''
               @ cover_line result)"
    by (intro format_present_fields) simp_all
next
  assume "documented_record result"
  then show "\<exists>out. format_search_result result = Inr out"
    by (rule format_documented)
qed

theorem absent_fields_get_defaults_witness:
  "format_search_result [(''title'', PStr ''Dune''), (''isbn'', PList [PStr ''0441013597''])]
       = format_search_result
           [(''author_name'', PList [PStr ''Unknown Author'']), (''title'', PStr ''Dune''),
            (''isbn'', PList [PStr ''0441013597''])]
   \<and> (\<exists>out. format_search_result [(''title'', PStr ''Dune''), (''isbn'', PList [PStr ''0441013597''])]
         = Inr out)
   \<and> format_search_result
        [(''title'', PStr []), (''author_name'', PList []), (''first_publish_year'', PInt 1965),
         (''publisher'', PList [PStr ''Ace'']), (''isbn'', PList []), (''description'', PStr [])]
       = Inr ''Title: \<newline>Author(s): \<newline>First Published: 1965\<newline>Publisher(s): Ace\<newline>ISBN(s): \<newline>Description: ...\<newline>''
   \<and> format_search_result
        [(''title'', PStr ''Dune''), (''author_name'', PList [PStr ''Frank Herbert'']),
         (''first_publish_year'', PInt 1965), (''publisher'', PList [PStr ''Ace'']),
         (''isbn'', PList []), (''description'', PDict [])]
       = Inr ''Title: Dune\<newline>Author(s): Frank Herbert\<newline>First Published: 1965\<newline>Publisher(s): Ace\<newline>ISBN(s): \<newline>Description: No description available...\<newline>''"
proof -
  let ?r = "[(''title'', PStr ''Dune''), (''isbn'', PList [PStr ''0441013597''])]"
  let ?e = "[(''title'', PStr []), (''author_name'', PList []), (''first_publish_year'', PInt 1965),
         (''publisher'', PList [PStr ''Ace'']), (''isbn'', PList []), (''description'', PStr [])]"
  let ?o = "[(''title'', PStr ''Dune''), (''author_name'', PList [PStr ''Frank Herbert'']),
         (''first_publish_year'', PInt 1965), (''publisher'', PList [PStr ''Ace'']),
         (''isbn'', PList []), (''description'', PDict [])]"
  have a: "map_of ?r ''author_name'' = None" by simp
  have d: "documented_record ?r" by (simp add: documented_record_def absent_or_def)
  have y: "str (PInt 1965) = ''1965''" by (simp add: str_def str_of_int_def)
  have c: "cover_line ?e = []" "cover_line ?o = []" by (simp_all add: cover_line_def dict_get_def)
  from a d absent_fields_get_defaults [where result = ?r]
  have 1: "format_search_result ?r
       = format_search_result ((''author_name'', PList [PStr ''Unknown Author'']) # ?r)"
    and 2: "\<exists>out. format_search_result ?r = Inr out"
    by blast+
  have "format_search_result ?e =
            Inr (''Title: '' @ str (PStr []) @ ''\<newline>''
               @ ''Author(s): '' @ join '', '' [] @ ''\<newline>''
               @ ''First Published: '' @ str (PInt 1965) @ ''\<newline>''
               @ ''Publisher(s): '' @ join '', '' [''Ace''] @ ''\<newline>''
               @ ''ISBN(s): '' @ join '', '' [] @ ''\<newline>''
               @ ''Description: '' @ take 200 [] @ ''...'' @ ''\<newline>''
               @ cover_line ?e)"
    using absent_fields_get_defaults [where result = ?e and t = "PStr []" and authors = "[]"
        and y = "PInt 1965" and publishers = "[''Ace'']" and isbns = "[]" and d = "[]",
        THEN conjunct2, THEN conjunct2, THEN conjunct2, THEN conjunct2, THEN conjunct2,
        THEN conjunct2, THEN conjunct2, THEN conjunct2, THEN conjunct1]
    by simp
  then have 3: "format_search_result ?e
       = Inr ''Title: \<newline>Author(s): \<newline>First Published: 1965\<newline>Publisher(s): Ace\<newline>ISBN(s): \<newline>Description: ...\<newline>''"
    by (simp add: y c str_PStr)
  have "format_search_result ?o =
            Inr (''Title: '' @ str (PStr ''Dune'') @ ''\<newline>''
               @ ''Author(s): '' @ join '', '' [''Frank Herbert''] @ ''\<newline>''
               @ ''First Published: '' @ str (PInt 1965) @ ''\<newline>''
               @ ''Publisher(s): '' @ join '', '' [''Ace''] @ ''\<newline>''
               @ ''ISBN(s): '' @ join '', '' [] @ ''\<newline>''
               @ ''Description: '' @ take 200 ''No description available'' @ ''...'' @ ''\<newline>''
               @ cover_line ?o)"
    using absent_fields_get_defaults [where result = ?o and t = "PStr ''Dune''"
        and authors = "[''Frank Herbert'']" and y = "PInt 1965" and publishers = "[''Ace'']"
        and isbns = "[]" and d = "''No description available''",
        THEN conjunct2, THEN conjunct2, THEN conjunct2, THEN conjunct2, THEN conjunct2,
        THEN conjunct2, THEN conjunct2, THEN conjunct2, THEN conjunct1]
    by (simp add: dict_get_def)
  then have 4: "format_search_result ?o
       = Inr ''Title: Dune\<newline>Author(s): Frank Herbert\<newline>First Published: 1965\<newline>Publisher(s): Ace\<newline>ISBN(s): \<newline>Description: No description available...\<newline>''"
    by (simp add: y c str_PStr)
  from 1 2 3 4 show ?thesis by simp
qed

text \<open>
  The claim as the specification words it fails twice: a description that is JSON null
  makes the slice raise, and an empty title or an empty author list is printed empty, not
  replaced by the default.
\<close>

theorem format_counterexample:
  "format_search_result [(''description'', PNone)] = Inl TypeError \<and>
   format_search_result [(''title'', PStr ''''), (''author_name'', PList [])]
     = Inr ''Title: \<newline>Author(s): \<newline>First Published: Unknown Year\<newline>Publisher(s): Unknown Publisher\<newline>ISBN(s): Unknown ISBN\<newline>Description: No description available...\<newline>''"
  by (simp add: format_search_result_def dict_get_def py_join_def slice200_def
      description_of_def cover_line_def str_def)

subsection \<open>The description\<close>




subsection \<open>The cover line\<close>



section \<open>Properties of \<^verbatim>\<open>search_books\<close>\<close>

subsection \<open>The request parameters\<close>

lemma map_of_text_param:
  "map_of (text_param name a) k =
     (if k = name \<and> nonempty a
      then Some (PStr (str_replace (CHR '' '') (CHR ''+'') (the (arg_or a None)))) else None)"
  by (simp add: text_param_def nonempty_def split: option.split)

lemma map_of_sort_param: "k \<noteq> ''sort'' \<Longrightarrow> map_of (sort_param a) k = None"
  by (simp add: sort_param_def Let_def)

lemma build_params_title:
  "map_of (build_params c) ''title'' =
     (if nonempty (title c)
      then Some (PStr (str_replace (CHR '' '') (CHR ''+'') (the (arg_or (title c) None)))) else None)"
  by (simp add: build_params_def map_of_text_param map_of_sort_param map_add_def)

lemma build_params_author:
  "map_of (build_params c) ''author'' =
     (if nonempty (author c)
      then Some (PStr (str_replace (CHR '' '') (CHR ''+'') (the (arg_or (author c) None)))) else None)"
  by (simp add: build_params_def map_of_text_param map_of_sort_param map_add_def)

lemma build_params_isbn:
  "map_of (build_params c) ''isbn'' =
     (if nonempty (isbn c)
      then Some (PStr (str_replace (CHR '' '') (CHR ''+'') (the (arg_or (isbn c) None)))) else None)"
  by (simp add: build_params_def map_of_text_param map_of_sort_param map_add_def)

lemma build_params_limit:
  "map_of (build_params c) ''limit'' = Some (PInt (min (arg_or (limit c) 5) 100))"
  by (simp add: build_params_def map_of_text_param map_of_sort_param map_add_def)

lemma build_params_fields:
  "map_of (build_params c) ''fields'' = Some (PStr (join '','' (fields_items (fields_arg c))))"
  by (simp add: build_params_def map_of_text_param map_of_sort_param map_add_def)

lemma str_replace_append:
  "str_replace old new (a @ b) = str_replace old new a @ str_replace old new b"
  by (simp add: str_replace_def)

lemma str_replace_run: "str_replace old new (replicate k old) = replicate k new"
  by (simp add: str_replace_def)

text \<open>
  C5, as the code has it. The \<^verbatim>\<open>limit\<close> parameter of the request is the smaller of the
  caller's limit and 100: a limit above 100 is sent as 100 (500 gives 100), every other
  limit is sent as it is, also when it is below 1, and an omitted limit is 5. No limit
  makes the call fail: with a search criterion the request is sent whatever the limit.
\<close>

theorem limit_capped_at_100:
  "map_of (build_params (c\<lparr>limit := Given n\<rparr>)) ''limit'' = Some (PInt (if 100 < n then 100 else n))
   \<and> map_of (build_params (c\<lparr>limit := Given 500\<rparr>)) ''limit'' = Some (PInt 100)
   \<and> map_of (build_params (c\<lparr>limit := Omitted\<rparr>)) ''limit'' = Some (PInt 5)
   \<and> fst (search_books_wrapped remote (c\<lparr>limit := Given n\<rparr>))
       = (if any_criteria c then remote (build_params (c\<lparr>limit := Given n\<rparr>)) else Inl ValueError)"
  by (simp add: build_params_limit arg_or_def search_books_wrapped_def any_criteria_def Let_def)

text \<open>
  The claim as the specification words it fails at limit 0: the request carries limit 0,
  and the call returns the catalogue's answer; the limit is neither rejected nor raised
  to 1.
\<close>

theorem limit_zero_counterexample:
  "map_of (build_params (no_args\<lparr>title := Given (Some ''Dune''), limit := Given 0\<rparr>)) ''limit''
     = Some (PInt 0)
   \<and> fst (search_books empty_catalogue init_state
            (no_args\<lparr>title := Given (Some ''Dune''), limit := Given 0\<rparr>))
     = Inr (PDict [(''docs'', PList [])])"
  by (simp add: build_params_limit arg_or_def search_books_def search_books_wrapped_def
      any_criteria_def nonempty_def hashable_def no_args_def init_state_def empty_catalogue_def)

text \<open>
  C6, as the code has it. A title, author or ISBN that is not empty is sent with each
  space character replaced by one plus sign, character by character; a run of \<open>k\<close> spaces
  becomes \<open>k\<close> plus signs.
\<close>

theorem spaces_become_plus_signs:
  "(s \<noteq> [] \<longrightarrow>
      map_of (build_params (c\<lparr>title := Given (Some s)\<rparr>)) ''title''
        = Some (PStr (map (\<lambda>x. if x = CHR '' '' then CHR ''+'' else x) s))
      \<and> map_of (build_params (c\<lparr>author := Given (Some s)\<rparr>)) ''author''
        = Some (PStr (map (\<lambda>x. if x = CHR '' '' then CHR ''+'' else x) s))
      \<and> map_of (build_params (c\<lparr>isbn := Given (Some s)\<rparr>)) ''isbn''
        = Some (PStr (map (\<lambda>x. if x = CHR '' '' then CHR ''+'' else x) s)))
   \<and> str_replace (CHR '' '') (CHR ''+'') (a @ replicate k (CHR '' '') @ b)
       = str_replace (CHR '' '') (CHR ''+'') a @ replicate k (CHR ''+'')
         @ str_replace (CHR '' '') (CHR ''+'') b"
  by (simp add: build_params_title build_params_author build_params_isbn nonempty_def arg_or_def
      str_replace_append str_replace_run) (simp add: str_replace_def)

theorem spaces_become_plus_signs_witness:
  "''The  Hobbit'' \<noteq> []
   \<and> map_of (build_params (by_title ''The  Hobbit'')) ''title'' = Some (PStr ''The++Hobbit'')"
  using spaces_become_plus_signs [of "''The  Hobbit''" no_args "[]" 0 "[]"]
  by (simp add: by_title_def)

text \<open>
  The claim as the specification words it fails on a double space: two spaces give two
  plus signs, so the title with a double space and the title with a single space have
  different wire forms; a tab is left as it is.
\<close>

theorem double_space_counterexample:
  "map_of (build_params (by_title ''The  Hobbit'')) ''title'' = Some (PStr ''The++Hobbit'')
   \<and> map_of (build_params (by_title ''The Hobbit'')) ''title'' = Some (PStr ''The+Hobbit'')
   \<and> map_of (build_params (by_title (''The'' @ [CHR 0x09] @ ''Hobbit''))) ''title''
       = Some (PStr (''The'' @ [CHR 0x09] @ ''Hobbit''))"
  by (simp add: build_params_title by_title_def nonempty_def arg_or_def str_replace_def)

subsection \<open>The memo\<close>

lemma search_unhashable: "\<not> hashable c \<Longrightarrow> search_books remote st c = (Inl TypeError, st)"
  by (simp add: search_books_def)

lemma search_hit:
  "hashable c \<Longrightarrow> map_of (memo st) c = Some v \<Longrightarrow>
   search_books remote st c = (Inr v, st\<lparr>memo := touch c v (memo st)\<rparr>)"
  by (simp add: search_books_def)

lemma search_invalid:
  "hashable c \<Longrightarrow> map_of (memo st) c = None \<Longrightarrow> \<not> any_criteria c \<Longrightarrow>
   search_books remote st c = (Inl ValueError, st)"
  by (simp add: search_books_def search_books_wrapped_def)

lemma search_miss_fail:
  "hashable c \<Longrightarrow> map_of (memo st) c = None \<Longrightarrow> any_criteria c \<Longrightarrow>
   remote (build_params c) = Inl e \<Longrightarrow>
   search_books remote st c = (Inl e, st\<lparr>remote_calls := remote_calls st @ [build_params c]\<rparr>)"
  by (simp add: search_books_def search_books_wrapped_def Let_def)

lemma search_miss_ok:
  "hashable c \<Longrightarrow> map_of (memo st) c = None \<Longrightarrow> any_criteria c \<Longrightarrow>
   remote (build_params c) = Inr v \<Longrightarrow>
   search_books remote st c =
     (Inr v, \<lparr>memo = store c v (memo st), remote_calls = remote_calls st @ [build_params c]\<rparr>)"
  by (simp add: search_books_def search_books_wrapped_def Let_def)

lemma search_miss:
  assumes "hashable c" "map_of (memo st) c = None" "any_criteria c"
  shows "fst (search_books remote st c) = remote (build_params c)"
    and "remote_calls (snd (search_books remote st c)) = remote_calls st @ [build_params c]"
  using assms
  by (cases "remote (build_params c)"; simp add: search_miss_fail search_miss_ok)+

lemma map_of_butlast: "map_of m k = None \<Longrightarrow> map_of (butlast m) k = None"
  by (auto simp: map_of_eq_None_iff dest: in_set_butlastD)

lemma map_of_store:
  "map_of (store c v m) k = (if k = c then Some v else if maxsize \<le> length m then map_of (butlast m) k else map_of m k)"
  by (simp add: store_def)

lemma map_of_store_other: "k \<noteq> c \<Longrightarrow> map_of m k = None \<Longrightarrow> map_of (store c v m) k = None"
  by (simp add: map_of_store map_of_butlast)






lemma memo_entries:
  assumes "kv \<in> set (memo (snd (search_books remote st c)))"
  shows "kv \<in> set (memo st) \<or> (fst kv = c \<and> remote (build_params c) = Inr (snd kv))"
proof (cases "hashable c")
  case False
  with assms show ?thesis by (simp add: search_unhashable)
next
  case True
  show ?thesis
  proof (cases "map_of (memo st) c")
    case (Some v)
    then have "(c, v) \<in> set (memo st)" by (rule map_of_SomeD)
    with True Some assms show ?thesis
      by (auto simp: search_hit touch_def)
  next
    case None
    show ?thesis
    proof (cases "any_criteria c")
      case False
      with True None assms show ?thesis by (simp add: search_invalid)
    next
      case valid: True
      show ?thesis
      proof (cases "remote (build_params c)")
        case (Inl e)
        with True None valid assms show ?thesis by (simp add: search_miss_fail)
      next
        case (Inr v)
        with True None valid assms show ?thesis
          by (auto simp: search_miss_ok store_def dest: in_set_butlastD split: if_splits)
      qed
    qed
  qed
qed


lemma any_criteria_iff:
  "any_criteria c =
     (\<exists>s. s \<noteq> [] \<and> (title c = Given (Some s) \<or> author c = Given (Some s) \<or> isbn c = Given (Some s)))"
proof -
  have "nonempty a = (\<exists>s. s \<noteq> [] \<and> a = Given (Some s))" for a
    by (cases a; simp add: nonempty_def arg_or_def split: option.split)
  then show ?thesis
    unfolding any_criteria_def by blast
qed

lemma invalid_not_memoised:
  assumes "\<forall>k \<in> fst ` set (memo st). any_criteria k" and "\<not> any_criteria c"
  shows "map_of (memo st) c = None"
  using assms by (auto simp: map_of_eq_None_iff)

lemma memo_keys_valid:
  assumes "\<forall>k \<in> fst ` set (memo st). any_criteria k"
  shows "\<forall>k \<in> fst ` set (memo (snd (search_books remote st c))). any_criteria k"
proof
  fix k assume "k \<in> fst ` set (memo (snd (search_books remote st c)))"
  then obtain kv where kv: "kv \<in> set (memo (snd (search_books remote st c)))" "k = fst kv"
    by auto
  from memo_entries [OF kv(1)] show "any_criteria k"
  proof
    assume "kv \<in> set (memo st)"
    with assms kv show ?thesis by auto
  next
    assume new: "fst kv = c \<and> remote (build_params c) = Inr (snd kv)"
    show ?thesis
    proof (rule ccontr)
      assume "\<not> any_criteria k"
      with new kv have inv: "\<not> any_criteria c" by simp
      with assms have "map_of (memo st) c = None" by (rule invalid_not_memoised)
      with inv have "memo (snd (search_books remote st c)) = memo st"
        by (cases "hashable c") (simp_all add: search_invalid search_unhashable)
      with kv(1) assms have "any_criteria (fst kv)" by auto
      with \<open>\<not> any_criteria k\<close> kv show False by simp
    qed
  qed
qed

subsection \<open>The inputs\<close>

lemma by_title_ok: "hashable (by_title s)" "any_criteria (by_title s) = (s \<noteq> [])"
  by (simp_all add: hashable_def any_criteria_def nonempty_def arg_or_def by_title_def no_args_def)

lemma init_state_simps: "memo init_state = []" "remote_calls init_state = []"
  by (simp_all add: init_state_def)


subsection \<open>Validation\<close>

text \<open>
  C2, as the code has it. The check of line 53 passes exactly when the title, the author
  or the ISBN is a non-empty string; nothing is trimmed, so a string of spaces passes.
  With hashable arguments, a call in which none of the three is a non-empty string
  raises ValueError and leaves the state as it was: no request is sent and nothing is
  stored. Such a call is never in the memo, because the memo only ever holds calls that
  passed the check. A call that passes the check and is not in the memo sends exactly one
  request, the one built from its arguments, and returns the catalogue's outcome.
\<close>

theorem validation_before_remote:
  "any_criteria c =
     (\<exists>s. s \<noteq> [] \<and> (title c = Given (Some s) \<or> author c = Given (Some s) \<or> isbn c = Given (Some s)))
   \<and> (hashable c \<and> (\<forall>k \<in> fst ` set (memo st). any_criteria k) \<and> \<not> any_criteria c \<longrightarrow>
        search_books remote st c = (Inl ValueError, st))
   \<and> (hashable c \<and> map_of (memo st) c = None \<and> any_criteria c \<longrightarrow>
        fst (search_books remote st c) = remote (build_params c)
        \<and> remote_calls (snd (search_books remote st c)) = remote_calls st @ [build_params c])
   \<and> ((\<forall>k \<in> fst ` set (memo st). any_criteria k) \<longrightarrow>
        (\<forall>k \<in> fst ` set (memo (snd (search_books remote st c))). any_criteria k))"
proof (intro conjI impI)
  show "any_criteria c =
     (\<exists>s. s \<noteq> [] \<and> (title c = Given (Some s) \<or> author c = Given (Some s) \<or> isbn c = Given (Some s)))"
    by (rule any_criteria_iff)
next
  assume a: "hashable c \<and> (\<forall>k \<in> fst ` set (memo st). any_criteria k) \<and> \<not> any_criteria c"
  then have "map_of (memo st) c = None" by (intro invalid_not_memoised) auto
  with a show "search_books remote st c = (Inl ValueError, st)"
    by (simp add: search_invalid)
next
  assume a: "hashable c \<and> map_of (memo st) c = None \<and> any_criteria c"
  then show "fst (search_books remote st c) = remote (build_params c)"
    by (simp add: search_miss)
  from a show "remote_calls (snd (search_books remote st c)) = remote_calls st @ [build_params c]"
    by (simp add: search_miss)
next
  assume "\<forall>k \<in> fst ` set (memo st). any_criteria k"
  then show "\<forall>k \<in> fst ` set (memo (snd (search_books remote st c))). any_criteria k"
    by (rule memo_keys_valid)
qed

theorem validation_before_remote_witness:
  "search_books empty_catalogue init_state (by_title []) = (Inl ValueError, init_state)
   \<and> search_books empty_catalogue init_state no_args = (Inl ValueError, init_state)
   \<and> remote_calls (snd (search_books empty_catalogue init_state (by_title ''Dune'')))
       = [build_params (by_title ''Dune'')]"
proof -
  have i: "\<forall>k \<in> fst ` set (memo init_state). any_criteria k" "map_of (memo init_state) c = None" for c
    by (simp_all add: init_state_def)
  have h: "hashable (by_title s)" "hashable no_args" for s
    by (simp_all add: hashable_def by_title_def no_args_def)
  have n: "\<not> any_criteria (by_title [])" "\<not> any_criteria no_args" "any_criteria (by_title ''Dune'')"
    by (simp_all add: any_criteria_def nonempty_def arg_or_def by_title_def no_args_def)
  have r: "remote_calls init_state = []" by (simp add: init_state_def)
  have 1: "search_books empty_catalogue init_state (by_title []) = (Inl ValueError, init_state)"
    using validation_before_remote [of "by_title []" init_state empty_catalogue,
        THEN conjunct2, THEN conjunct1] i h n
    by blast
  have 2: "search_books empty_catalogue init_state no_args = (Inl ValueError, init_state)"
    using validation_before_remote [of no_args init_state empty_catalogue,
        THEN conjunct2, THEN conjunct1] i h n
    by blast
  have 3: "remote_calls (snd (search_books empty_catalogue init_state (by_title ''Dune'')))
       = remote_calls init_state @ [build_params (by_title ''Dune'')]"
    using validation_before_remote [of "by_title ''Dune''" init_state empty_catalogue,
        THEN conjunct2, THEN conjunct2, THEN conjunct1] i h n
    by blast
  from 1 2 3 r show ?thesis by simp
qed

text \<open>
  The claim as the specification words it fails on a title of two spaces, which is empty
  after trimming: the check passes and the request is sent, with the title \<^verbatim>\<open>++\<close>.
\<close>

theorem blank_title_counterexample:
  "search_books empty_catalogue init_state (by_title ''  '')
     = (Inr (PDict [(''docs'', PList [])]),
        \<lparr>memo = [(by_title ''  '', PDict [(''docs'', PList [])])],
         remote_calls =
           [(''title'', PStr ''++'') #
             [(''fields'', PStr ''title,author_name,first_publish_year,publisher,isbn,cover_i,description''),
              (''limit'', PInt 5), (''page'', PInt 1)] ]\<rparr>)"
  by (simp add: search_books_def search_books_wrapped_def any_criteria_def nonempty_def
      arg_or_def hashable_def by_title_def no_args_def init_state_def empty_catalogue_def
      build_params_def text_param_def sort_param_def fields_items_def DEFAULT_FIELDS_def
      str_replace_def store_def maxsize_def)

subsection \<open>Repeated calls\<close>

text \<open>
  C1, as the code has it. The memo is keyed by the arguments of the call, not by the
  request built from them. When a call with hashable arguments that passes the check is
  not in the memo and the catalogue answers it, the same call made again is answered
  from the memo, whatever the catalogue would do now: the two calls send exactly one
  request. A second call with different arguments that is not in the memo sends a request
  of its own, also when both calls build the same request.
\<close>

theorem identical_calls_one_remote_call:
  "(hashable c \<and> any_criteria c \<and> map_of (memo st) c = None \<and> remote (build_params c) = Inr v \<longrightarrow>
      remote_calls (run remote st [c, c]) = remote_calls st @ [build_params c]
      \<and> fst (search_books remote' (snd (search_books remote st c)) c) = Inr v
      \<and> remote_calls (snd (search_books remote' (snd (search_books remote st c)) c))
          = remote_calls st @ [build_params c])
   \<and> (hashable c \<and> any_criteria c \<and> map_of (memo st) c = None \<and> remote (build_params c) = Inr v
       \<and> hashable c' \<and> any_criteria c' \<and> map_of (memo st) c' = None \<and> c' \<noteq> c \<longrightarrow>
      remote_calls (run remote st [c, c']) = remote_calls st @ [build_params c, build_params c'])"
proof (intro conjI impI)
  assume a: "hashable c \<and> any_criteria c \<and> map_of (memo st) c = None \<and> remote (build_params c) = Inr v"
  let ?st1 = "\<lparr>memo = store c v (memo st), remote_calls = remote_calls st @ [build_params c]\<rparr>"
  from a have first: "search_books remote st c = (Inr v, ?st1)"
    by (simp add: search_miss_ok)
  have cached: "map_of (memo ?st1) c = Some v"
    by (simp add: map_of_store)
  from a cached have second: "search_books r ?st1 c = (Inr v, ?st1\<lparr>memo := touch c v (memo ?st1)\<rparr>)" for r
    by (intro search_hit) simp_all
  show "remote_calls (run remote st [c, c]) = remote_calls st @ [build_params c]"
    by (simp add: first second)
  show "fst (search_books remote' (snd (search_books remote st c)) c) = Inr v"
    by (simp add: first second)
  show "remote_calls (snd (search_books remote' (snd (search_books remote st c)) c))
          = remote_calls st @ [build_params c]"
    by (simp add: first second)
next
  assume a: "hashable c \<and> any_criteria c \<and> map_of (memo st) c = None \<and> remote (build_params c) = Inr v
       \<and> hashable c' \<and> any_criteria c' \<and> map_of (memo st) c' = None \<and> c' \<noteq> c"
  let ?st1 = "\<lparr>memo = store c v (memo st), remote_calls = remote_calls st @ [build_params c]\<rparr>"
  from a have first: "search_books remote st c = (Inr v, ?st1)"
    by (simp add: search_miss_ok)
  from a have miss: "hashable c'" "map_of (memo ?st1) c' = None" "any_criteria c'"
    by (simp_all add: map_of_store_other)
  from search_miss(2) [OF miss, of remote]
  show "remote_calls (run remote st [c, c']) = remote_calls st @ [build_params c, build_params c']"
    by (simp add: first)
qed

theorem identical_calls_one_remote_call_witness:
  "remote_calls (run empty_catalogue init_state [by_title ''The Hobbit'', by_title ''The Hobbit''])
     = [build_params (by_title ''The Hobbit'')]
   \<and> fst (search_books failing_catalogue
        (snd (search_books empty_catalogue init_state (by_title ''The Hobbit'')))
        (by_title ''The Hobbit''))
     = Inr (PDict [(''docs'', PList [])])"
proof -
  let ?c = "by_title ''The Hobbit''"
  have pre: "hashable ?c \<and> any_criteria ?c \<and> map_of (memo init_state) ?c = None
      \<and> empty_catalogue (build_params ?c) = Inr (PDict [(''docs'', PList [])])"
    by (simp add: by_title_ok init_state_simps empty_catalogue_def)
  from identical_calls_one_remote_call [of ?c init_state empty_catalogue
      "PDict [(''docs'', PList [])]" failing_catalogue ?c, THEN conjunct1,
      unfolded init_state_simps(2) append_Nil] pre
  show ?thesis
    by blast
qed

text \<open>
  The claim as the specification words it fails: the titles \<^verbatim>\<open>The Hobbit\<close> and
  \<^verbatim>\<open>The+Hobbit\<close> build the same request, and the second call still sends it again; with
  the specification's own pair, \<^verbatim>\<open>The Hobbit\<close> and the same title with two spaces, two
  requests are sent as well.
\<close>

theorem normalised_equal_counterexample:
  "build_params (by_title ''The Hobbit'') = build_params (by_title ''The+Hobbit'')
   \<and> remote_calls (run empty_catalogue init_state [by_title ''The Hobbit'', by_title ''The+Hobbit''])
       = [build_params (by_title ''The Hobbit''), build_params (by_title ''The Hobbit'')]
   \<and> length (remote_calls
        (run empty_catalogue init_state [by_title ''The Hobbit'', by_title ''The  Hobbit''])) = 2"
  by (simp add: search_books_def search_books_wrapped_def any_criteria_def nonempty_def
      arg_or_def hashable_def by_title_def no_args_def init_state_def empty_catalogue_def
      build_params_def text_param_def sort_param_def fields_items_def DEFAULT_FIELDS_def
      str_replace_def store_def maxsize_def)

subsection \<open>Failures\<close>

text \<open>
  C8. When a call that is not in the memo reaches the catalogue and the catalogue fails,
  the exception is raised, the request is recorded and the memo stays as it was; the
  same call made again reaches the catalogue again, so the two calls send two requests
  and the second returns whatever the catalogue answers then. After any call, every
  entry of the memo was there before or holds the successful answer to this call.
\<close>

theorem failed_call_not_memoised:
  "(hashable c \<and> any_criteria c \<and> map_of (memo st) c = None \<and> remote (build_params c) = Inl e \<longrightarrow>
      search_books remote st c = (Inl e, st\<lparr>remote_calls := remote_calls st @ [build_params c]\<rparr>)
      \<and> fst (search_books remote' (snd (search_books remote st c)) c) = remote' (build_params c)
      \<and> remote_calls (snd (search_books remote' (snd (search_books remote st c)) c))
          = remote_calls st @ [build_params c, build_params c])
   \<and> (\<forall>kv \<in> set (memo (snd (search_books remote st c))).
        kv \<in> set (memo st) \<or> (fst kv = c \<and> remote (build_params c) = Inr (snd kv)))"
proof (intro conjI impI ballI)
  assume a: "hashable c \<and> any_criteria c \<and> map_of (memo st) c = None \<and> remote (build_params c) = Inl e"
  let ?st1 = "st\<lparr>remote_calls := remote_calls st @ [build_params c]\<rparr>"
  from a show first: "search_books remote st c = (Inl e, ?st1)"
    by (simp add: search_miss_fail)
  from a have again: "hashable c" "map_of (memo ?st1) c = None" "any_criteria c"
    by simp_all
  from search_miss(1) [OF again]
  show "fst (search_books remote' (snd (search_books remote st c)) c) = remote' (build_params c)"
    by (simp add: first)
  from search_miss(2) [OF again]
  show "remote_calls (snd (search_books remote' (snd (search_books remote st c)) c))
          = remote_calls st @ [build_params c, build_params c]"
    by (simp add: first)
next
  fix kv assume "kv \<in> set (memo (snd (search_books remote st c)))"
  then show "kv \<in> set (memo st) \<or> (fst kv = c \<and> remote (build_params c) = Inr (snd kv))"
    by (rule memo_entries)
qed

theorem failed_call_not_memoised_witness:
  "search_books failing_catalogue init_state (by_title ''Dune'')
     = (Inl RequestException, init_state\<lparr>remote_calls := [build_params (by_title ''Dune'')]\<rparr>)
   \<and> remote_calls (snd (search_books failing_catalogue
        (snd (search_books failing_catalogue init_state (by_title ''Dune''))) (by_title ''Dune'')))
     = [build_params (by_title ''Dune''), build_params (by_title ''Dune'')]
   \<and> fst (search_books empty_catalogue
        (snd (search_books failing_catalogue init_state (by_title ''Dune''))) (by_title ''Dune''))
     = Inr (PDict [(''docs'', PList [])])"
proof -
  let ?c = "by_title ''Dune''"
  have pre: "hashable ?c \<and> any_criteria ?c \<and> map_of (memo init_state) ?c = None
      \<and> failing_catalogue (build_params ?c) = Inl RequestException"
    by (simp add: by_title_ok init_state_simps failing_catalogue_def)
  from failed_call_not_memoised [of ?c init_state failing_catalogue RequestException
      failing_catalogue, THEN conjunct1, unfolded init_state_simps(2) append_Nil] pre
  have 1: "search_books failing_catalogue init_state ?c
     = (Inl RequestException, init_state\<lparr>remote_calls := [build_params ?c]\<rparr>)"
    and 2: "remote_calls (snd (search_books failing_catalogue
        (snd (search_books failing_catalogue init_state ?c)) ?c))
     = [build_params ?c, build_params ?c]"
    by blast+
  from failed_call_not_memoised [of ?c init_state failing_catalogue RequestException
      empty_catalogue, THEN conjunct1] pre
  have "fst (search_books empty_catalogue
        (snd (search_books failing_catalogue init_state ?c)) ?c)
     = empty_catalogue (build_params ?c)"
    by blast
  then have 3: "fst (search_books empty_catalogue
        (snd (search_books failing_catalogue init_state ?c)) ?c)
     = Inr (PDict [(''docs'', PList [])])"
    by (simp add: empty_catalogue_def)
  from 1 2 3 show ?thesis by blast
qed

subsection \<open>Eviction\<close>











subsection \<open>The list of fields\<close>

text \<open>
  C9 fails on the code. A call that passes \<^verbatim>\<open>fields\<close> as a list, the type the signature
  and the docstring give it, raises TypeError when the decorator hashes its arguments:
  the body never runs and no request is sent. The body itself would join the list in the
  caller's order, as it does for the same fields passed as a tuple, which is accepted.
\<close>

theorem list_of_fields_rejected:
  "search_books remote st
     (no_args\<lparr>title := Given (Some ''Dune''), fields_arg := Given (FieldsList [''title'', ''isbn''])\<rparr>)
     = (Inl TypeError, st)
   \<and> map_of (build_params
        (no_args\<lparr>title := Given (Some ''Dune''), fields_arg := Given (FieldsList [''title'', ''isbn''])\<rparr>))
        ''fields''
     = Some (PStr ''title,isbn'')
   \<and> fst (search_books empty_catalogue init_state
        (no_args\<lparr>title := Given (Some ''Dune''), fields_arg := Given (FieldsTuple [''title'', ''isbn''])\<rparr>))
     = Inr (PDict [(''docs'', PList [])])"
  by (simp add: search_books_def search_books_wrapped_def hashable_def no_args_def
      build_params_fields fields_items_def any_criteria_def nonempty_def arg_or_def
      init_state_def empty_catalogue_def)

end
